theory Spec2Isabelle
  imports Main
begin

section \<open>Python strings\<close>

text \<open>
  The bundler is a Python program whose versioning logic is string manipulation:
  \<^verbatim>\<open>str.split\<close>, \<^verbatim>\<open>in\<close>, \<^verbatim>\<open>str.replace\<close>, \<^verbatim>\<open>int(...)\<close>
  and format specifications such as \<^verbatim>\<open>f"{n:03}"\<close>. Strings are modelled as
  \<^typ>\<open>string\<close> restricted to ASCII, \<^verbatim>\<open>os.sep\<close> is \<^verbatim>\<open>/\<close>.
\<close>

datatype py_error = ValueError | IndexError | Exception string

fun startswith :: "string \<Rightarrow> string \<Rightarrow> bool" where
  "startswith [] s = True"
| "startswith (p # ps) [] = False"
| "startswith (p # ps) (c # cs) = (p = c \<and> startswith ps cs)"

text \<open>\<^verbatim>\<open>sub in s\<close> for strings.\<close>

fun py_in :: "string \<Rightarrow> string \<Rightarrow> bool" where
  "py_in sub [] = (sub = [])"
| "py_in sub (c # cs) = (startswith sub (c # cs) \<or> py_in sub cs)"

text \<open>
  \<^verbatim>\<open>s.split(sep)\<close> with a non-empty separator: the pieces between the
  non-overlapping occurrences of \<open>sep\<close>, scanned from the left. The result is never
  empty. (Python raises ValueError on an empty separator; every separator below is a
  non-empty literal or contains one.)
\<close>

function split_from :: "string \<Rightarrow> string \<Rightarrow> string \<Rightarrow> string list" where
  "split_from sep acc [] = [rev acc]"
| "split_from sep acc (c # cs) =
     (if sep \<noteq> [] \<and> startswith sep (c # cs)
      then rev acc # split_from sep [] (drop (length sep) (c # cs))
      else split_from sep (c # acc) cs)"
  by pat_completeness auto
termination
  by (relation "measure (\<lambda>(sep, acc, s). length s)") auto

definition py_split :: "string \<Rightarrow> string \<Rightarrow> string list" where
  "py_split sep s = split_from sep [] s"

text \<open>
  \<^verbatim>\<open>s.replace(old, new)\<close>: every non-overlapping occurrence from the left; with an
  empty \<open>old\<close> Python inserts \<open>new\<close> before every character and at the end.
\<close>

function replace_from :: "string \<Rightarrow> string \<Rightarrow> string \<Rightarrow> string" where
  "replace_from old new [] = []"
| "replace_from old new (c # cs) =
     (if old \<noteq> [] \<and> startswith old (c # cs)
      then new @ replace_from old new (drop (length old) (c # cs))
      else c # replace_from old new cs)"
  by pat_completeness auto
termination
  by (relation "measure (\<lambda>(old, new, s). length s)") auto

definition py_replace :: "string \<Rightarrow> string \<Rightarrow> string \<Rightarrow> string" where
  "py_replace old new s =
     (if old = [] then new @ concat (map (\<lambda>c. c # new) s) else replace_from old new s)"

text \<open>Python's \<^verbatim>\<open>int(s)\<close> on a string: surrounding whitespace, an optional sign, decimal
  digits with single underscores between digits; anything else is a ValueError
  (\<open>None\<close> here).\<close>

definition is_space :: "char \<Rightarrow> bool" where
  "is_space c = (c \<in> set [CHR '' '', CHR 0x09, CHR 0x0A, CHR 0x0B, CHR 0x0C, CHR 0x0D,
                           CHR 0x1C, CHR 0x1D, CHR 0x1E, CHR 0x1F])"

definition py_strip :: "string \<Rightarrow> string" where
  "py_strip s = rev (dropWhile is_space (rev (dropWhile is_space s)))"

definition digit_chars :: string where
  "digit_chars = ''0123456789''"

fun index_of :: "char \<Rightarrow> string \<Rightarrow> nat option" where
  "index_of c [] = None"
| "index_of c (d # ds) = (if c = d then Some 0 else map_option Suc (index_of c ds))"

definition digit_val :: "char \<Rightarrow> nat option" where
  "digit_val c = index_of c digit_chars"

fun parse_digits :: "nat \<Rightarrow> string \<Rightarrow> nat option" where
  "parse_digits acc [] = Some acc"
| "parse_digits acc [c] =
     (case digit_val c of Some d \<Rightarrow> Some (acc * 10 + d) | None \<Rightarrow> None)"
| "parse_digits acc (c # d # cs) =
     (case digit_val c of
        Some v \<Rightarrow> parse_digits (acc * 10 + v) (d # cs)
      | None \<Rightarrow>
          (if c = CHR ''_'' \<and> digit_val d \<noteq> None then parse_digits acc (d # cs)
           else None))"

definition parse_unsigned :: "string \<Rightarrow> nat option" where
  "parse_unsigned s =
     (case s of [] \<Rightarrow> None
      | c # cs \<Rightarrow> (if digit_val c = None then None else parse_digits 0 s))"

definition py_int :: "string \<Rightarrow> int option" where
  "py_int s =
     (case py_strip s of
        [] \<Rightarrow> None
      | c # cs \<Rightarrow>
          (if c = CHR ''-'' then map_option (\<lambda>n. - int n) (parse_unsigned cs)
           else if c = CHR ''+'' then map_option int (parse_unsigned cs)
           else map_option int (parse_unsigned (c # cs))))"

text \<open>\<^verbatim>\<open>str(n)\<close> for an integer, and the format specification \<^verbatim>\<open>{n:03}\<close>
  (zero padding to width 3, the sign first and counted in the width).\<close>

function str_nat :: "nat \<Rightarrow> string" where
  "str_nat n =
     (if n < 10 then [digit_chars ! n] else str_nat (n div 10) @ [digit_chars ! (n mod 10)])"
  by pat_completeness auto
termination
  by (relation "measure id") auto

declare str_nat.simps [simp del]

definition py_str :: "int \<Rightarrow> string" where
  "py_str n = (if n < 0 then CHR ''-'' # str_nat (nat (- n)) else str_nat (nat n))"

definition zfill :: "nat \<Rightarrow> string \<Rightarrow> string" where
  "zfill w s = replicate (w - length s) CHR ''0'' @ s"

definition fmt03 :: "int \<Rightarrow> string" where
  "fmt03 n =
     (if n < 0 then CHR ''-'' # zfill 2 (str_nat (nat (- n))) else zfill 3 (str_nat (nat n)))"

text \<open>\<^verbatim>\<open>list.sort()\<close> on strings: the order is lexicographic on code points.\<close>

fun str_le :: "string \<Rightarrow> string \<Rightarrow> bool" where
  "str_le [] ys = True"
| "str_le (x # xs) [] = False"
| "str_le (x # xs) (y # ys) =
     ((of_char x :: nat) < of_char y \<or> (x = y \<and> str_le xs ys))"

fun insert_sorted :: "string \<Rightarrow> string list \<Rightarrow> string list" where
  "insert_sorted x [] = [x]"
| "insert_sorted x (y # ys) = (if str_le x y then x # y # ys else y # insert_sorted x ys)"

fun py_sorted :: "string list \<Rightarrow> string list" where
  "py_sorted [] = []"
| "py_sorted (x # xs) = insert_sorted x (py_sorted xs)"



section \<open>Release resolution: \<^verbatim>\<open>Setup.set_release\<close>\<close>

text \<open>
  The file system is read through \<^verbatim>\<open>glob.glob\<close> only, which enters the model as a
  function from the pattern to the list of matching paths. The fields of
  \<^verbatim>\<open>self\<close> and \<^verbatim>\<open>self.args\<close> that the method reads are the record \<open>npb_setup\<close>;
  its result is the three attributes it assigns and the messages it logs after the step
  header. An exception that leaves the method is \<open>Inl\<close>.
\<close>

record npb_setup =
  mission_acronym :: string
  run_type :: string
  bundle_directory :: string
  working_directory :: string
  clear :: "string option"
  kerlist :: "string option"

record release_state =
  release :: string
  current_release :: string
  increment :: bool
  log :: "string list"

text \<open>Truth value of an optional string argument (\<^verbatim>\<open>None\<close> and \<^verbatim>\<open>""\<close> are false).\<close>

fun truthy :: "string option \<Rightarrow> bool" where
  "truthy None = False"
| "truthy (Some s) = (s \<noteq> [])"

text \<open>\<^verbatim>\<open>xs[-1]\<close>, which raises IndexError on the empty list.\<close>

definition py_last :: "'a list \<Rightarrow> py_error + 'a" where
  "py_last xs = (if xs = [] then Inl IndexError else Inr (last xs))"

definition int_or_raise :: "string \<Rightarrow> py_error + int" where
  "int_or_raise s = (case py_int s of None \<Rightarrow> Inl ValueError | Some n \<Rightarrow> Inr n)"

text \<open>The branch taken when \<^verbatim>\<open>self.args.clear\<close> is given; it has no \<^verbatim>\<open>try\<close>.\<close>

definition release_from_clear :: "npb_setup \<Rightarrow> string \<Rightarrow> py_error + release_state" where
  "release_from_clear s clr =
     (case int_or_raise
             (last (py_split (''_'' @ run_type s @ ''_'') (hd (py_split ''.file_list'' clr)))) of
        Inl e \<Rightarrow> Inl e
      | Inr r \<Rightarrow>
          Inr \<lparr>release = fmt03 r, current_release = fmt03 (r - 1), increment = True,
               log = [''-- Checking existence of previous release.'',
                      ''     Generating release '' @ fmt03 r @
                      '' as obtained from file list from previous run: '' @ clr]\<rparr>)"

text \<open>The body of the first \<^verbatim>\<open>try\<close>: the bundle labels of the bundle directory.\<close>

definition bundle_pattern :: "npb_setup \<Rightarrow> string" where
  "bundle_pattern s =
     bundle_directory s @ ''/'' @ mission_acronym s @ ''_spice'' @ ''/'' @
     ''bundle_'' @ mission_acronym s @ ''_spice_v*''"

definition release_from_bundle :: "string list \<Rightarrow> py_error + (string \<times> string)" where
  "release_from_bundle releases =
     (case py_last (py_sorted releases) of
        Inl e \<Rightarrow> Inl e
      | Inr l \<Rightarrow>
          (case int_or_raise (hd (py_split ''.'' (last (py_split ''_spice_v'' l)))) of
             Inl e \<Rightarrow> Inl e
           | Inr cr \<Rightarrow>
               (case int_or_raise (fmt03 cr) of
                  Inl e \<Rightarrow> Inl e
                | Inr c \<Rightarrow> Inr (fmt03 (c + 1), fmt03 cr))))"

text \<open>
  The body of the second \<^verbatim>\<open>try\<close>: the kernel lists of the working directory. The
  separator of the first split is the plain string literal
  \<^verbatim>\<open>"_{self.run_type}_"\<close> of the source (it has no \<^verbatim>\<open>f\<close> prefix,
  unlike the glob pattern two lines above it), so the braces are literal characters.
  The bare \<^verbatim>\<open>raise\<close> under \<^verbatim>\<open>if self.args.kerlist\<close> re-raises
  the exception being handled.
\<close>

definition kernel_list_pattern :: "npb_setup \<Rightarrow> string" where
  "kernel_list_pattern s =
     working_directory s @ ''/'' @ mission_acronym s @ ''_'' @ run_type s @ ''_*.kernel_list''"

definition release_from_kernel_list ::
  "npb_setup \<Rightarrow> py_error \<Rightarrow> string list \<Rightarrow> py_error + (string \<times> string)" where
  "release_from_kernel_list s handled releases =
     (if truthy (kerlist s) then Inl handled
      else
        (case py_last (py_sorted releases) of
           Inl e \<Rightarrow> Inl e
         | Inr l \<Rightarrow>
             (case int_or_raise (hd (py_split ''.'' (last (py_split ''_{self.run_type}_'' l)))) of
                Inl e \<Rightarrow> Inl e
              | Inr cr \<Rightarrow>
                  (case int_or_raise (fmt03 cr) of
                     Inl e \<Rightarrow> Inl e
                   | Inr c \<Rightarrow> Inr (fmt03 (c + 1), fmt03 cr)))))"

definition set_release :: "(string \<Rightarrow> string list) \<Rightarrow> npb_setup \<Rightarrow> py_error + release_state" where
  "set_release glob s =
     (if truthy (clear s) then release_from_clear s (the (clear s))
      else
        (case release_from_bundle (glob (bundle_pattern s)) of
           Inr (r, cr) \<Rightarrow>
             Inr \<lparr>release = r, current_release = cr, increment = True,
                  log = [''-- Checking existence of previous release.'',
                         ''     Generating release '' @ r @ ''.'']\<rparr>
         | Inl e \<Rightarrow>
             (case release_from_kernel_list s e (glob (kernel_list_pattern s)) of
                Inr (r, cr) \<Rightarrow>
                  Inr \<lparr>release = r, current_release = cr, increment = True,
                       log = [''-- Checking existence of previous release.'',
                              ''-- Bundle label not found. Checking previous kernel list.'',
                              ''     Generating release '' @ r]\<rparr>
              | Inl e' \<Rightarrow>
                  Inr \<lparr>release = ''001'', current_release = [], increment = False,
                       log = [''-- Checking existence of previous release.'',
                              ''-- Bundle label not found. Checking previous kernel list.'']
                             @ (if truthy (kerlist s)
                                then [''-- Kernel list provided as input. '' @
                                      ''Release number cannot be obtained.'']
                                else [])
                             @ [''     This is the first release.'']\<rparr>)))"

text \<open>
  A model of \<^verbatim>\<open>glob.glob\<close> over a listing of the paths that exist, for patterns
  whose only metacharacter is \<^verbatim>\<open>*\<close> (any run of characters other than the
  separator).
\<close>

fun fnmatch :: "string \<Rightarrow> string \<Rightarrow> bool" where
  "fnmatch [] s = (s = [])"
| "fnmatch (p # ps) [] = (p = CHR ''*'' \<and> fnmatch ps [])"
| "fnmatch (p # ps) (c # cs) =
     (if p = CHR ''*'' then (fnmatch ps (c # cs) \<or> (c \<noteq> CHR ''/'' \<and> fnmatch (p # ps) cs))
      else (p = c \<and> fnmatch ps cs))"

definition glob_listing :: "string list \<Rightarrow> string \<Rightarrow> string list" where
  "glob_listing paths pattern = filter (fnmatch pattern) paths"

text \<open>Example archives: the InSight archive whose working directory holds the kernel list of
  release 7 and whose bundle directory has no bundle label, and a run that clears a
  previous run from a file list whose release field is not a number.\<close>

definition insight_setup :: npb_setup where
  "insight_setup =
     \<lparr>mission_acronym = ''insight'', run_type = ''release'',
      bundle_directory = ''/bundle'', working_directory = ''/work'',
      clear = None, kerlist = None\<rparr>"

definition insight_paths :: "string list" where
  "insight_paths = [''/work/insight_release_07.kernel_list'', ''/work/insight_release_07.log'']"

definition insight_labelled_paths :: "string list" where
  "insight_labelled_paths =
     [''/bundle/insight_spice/bundle_insight_spice_v006.xml'',
      ''/bundle/insight_spice/bundle_insight_spice_v007.xml'',
      ''/work/insight_release_07.kernel_list'']"


section \<open>Products: \<^verbatim>\<open>npb/classes/product.py\<close>\<close>

text \<open>The attributes of the setup object that the product classes read.\<close>

record archive_setup =
  final_directory :: string
  staging_directory :: string
  root_dir :: string
  mission_accronym :: string
  national_agency :: string
  archiving_agency :: string
  is_increment :: bool

subsection \<open>Meta-kernel version and VID\<close>

text \<open>
  \<^verbatim>\<open>self.version = int(self.name.split('.')[0][-1])\<close>: the last character of the
  name up to its first dot. An empty stem is an IndexError, a last character that is
  not a digit a ValueError; both leave the constructor.
\<close>

definition metakernel_version :: "string \<Rightarrow> py_error + int" where
  "metakernel_version name =
     (case py_last (hd (py_split ''.'' name)) of
        Inl e \<Rightarrow> Inl e
      | Inr c \<Rightarrow> int_or_raise [c])"

definition metakernel_product_vid :: "int \<Rightarrow> string" where
  "metakernel_product_vid version = py_str version @ ''.0''"

text \<open>
  \<^verbatim>\<open>check_version\<close> compares the version with the one that follows the latest
  meta-kernel of the final area. It only logs; its result is the list of messages.
  (The prompt of the interactive mode is not modelled.)
\<close>

definition metakernel_versions_pattern :: "archive_setup \<Rightarrow> string \<Rightarrow> string" where
  "metakernel_versions_pattern s name =
     final_directory s @ ''/'' @ mission_accronym s @ ''_spice/'' @ ''spice_kernels/mk/'' @
     hd (py_split ''v'' name) @ ''*.tm''"

definition expected_version :: "string list \<Rightarrow> py_error + int" where
  "expected_version versions =
     (case py_last (py_sorted versions) of
        Inl e \<Rightarrow> Inl e
      | Inr l \<Rightarrow>
          (case int_or_raise (hd (py_split ''.'' (last (py_split ''v'' l)))) of
             Inl e \<Rightarrow> Inl e
           | Inr n \<Rightarrow> Inr (n + 1)))"

definition check_version ::
  "(string \<Rightarrow> string list) \<Rightarrow> archive_setup \<Rightarrow> string \<Rightarrow> int \<Rightarrow> string list" where
  "check_version glob s name version =
     [''-- Meta-kernel version '' @ py_str version @ '' from kernel list.''] @
     (if \<not> is_increment s then []
      else
        [''-- Check version from previous increment.''] @
        (case expected_version (glob (metakernel_versions_pattern s name)) of
           Inl e \<Rightarrow>
             [''    Meta-kernel from previous increment is not available.'',
              ''    It is recommended to stop the execution and fix the issue.'',
              ''    Version from kernel list will be used: '' @ py_str version @ ''.'']
         | Inr v \<Rightarrow>
             (if v = version
              then [''     Version from kernel list and from previous increment agree: '' @
                    py_str v @ ''.'']
              else [''    Version discrepancy. From kernel list: '' @ py_str version @
                    ''. From increment: '' @ py_str v @ ''.'',
                    ''    It is recommended to stop the execution and fix the issue.'',
                    ''    Version from kernel list will be used: '' @ py_str version @ ''.''])))"

text \<open>The part of the constructor that fixes the VID: the version, its check, the VID.\<close>

definition metakernel_vid ::
  "(string \<Rightarrow> string list) \<Rightarrow> archive_setup \<Rightarrow> string \<Rightarrow> py_error + (string \<times> string list)" where
  "metakernel_vid glob s name =
     (case metakernel_version name of
        Inl e \<Rightarrow> Inl e
      | Inr version \<Rightarrow> Inr (metakernel_product_vid version, check_version glob s name version))"

subsection \<open>Meta-kernel comparison: the search of \<^verbatim>\<open>MetaKernelProduct.compare\<close>\<close>

text \<open>
  The \<^verbatim>\<open>while match_flag\<close> loop, one unit of fuel for each evaluation of its
  body; \<open>None\<close> is a run that has not left the loop when the fuel is spent. The
  increment \<^verbatim>\<open>i += 1\<close> is inside \<^verbatim>\<open>if i < len(val_mk_name) - 1\<close>, so the
  \<^verbatim>\<open>else\<close> case changes nothing. The result is \<^verbatim>\<open>val_mk\<close> at the exit.
\<close>

fun compare_search ::
  "nat \<Rightarrow> (string \<Rightarrow> string list) \<Rightarrow> string \<Rightarrow> string \<Rightarrow> nat \<Rightarrow> string \<Rightarrow> string option" where
  "compare_search 0 glob val_mk_path val_mk_name i val_mk = None"
| "compare_search (Suc fuel) glob val_mk_path val_mk_name i val_mk =
     (if int i < int (length val_mk_name) - 1
      then
        (let val_mks = glob (val_mk_path @ take i val_mk_name @ ''*.tm'')
         in if val_mks \<noteq> []
            then compare_search fuel glob val_mk_path val_mk_name (i + 1)
                   (last (py_sorted val_mks))
            else Some val_mk)
      else compare_search fuel glob val_mk_path val_mk_name i val_mk)"

definition val_mk_path_of :: "archive_setup \<Rightarrow> string" where
  "val_mk_path_of s =
     final_directory s @ ''/'' @ mission_accronym s @ ''_spice/'' @ ''spice_kernels/mk/''"

text \<open>The file the generated meta-kernel is compared with: the last match, or the
  template when the search ends without one (the exception raised then is caught).\<close>

definition compare_fromfile ::
  "nat \<Rightarrow> (string \<Rightarrow> string list) \<Rightarrow> archive_setup \<Rightarrow> string \<Rightarrow> string option" where
  "compare_fromfile fuel glob s name =
     (case compare_search fuel glob (val_mk_path_of s) (last (py_split ''/'' name)) 1 [] of
        None \<Rightarrow> None
      | Some val_mk \<Rightarrow>
          Some (if val_mk = []
                then root_dir s @ ''/config/'' @ mission_accronym s @ ''_metakernel.tm''
                else val_mk))"

subsection \<open>LID and VID of inventory and SPICEDS products\<close>

definition inventory_product_lid :: "archive_setup \<Rightarrow> string" where
  "inventory_product_lid s =
     ''urn:'' @ national_agency s @ '':'' @ archiving_agency s @ '':'' @
     mission_accronym s @ ''_spice:document:spiceds''"

definition spiceds_product_lid :: "archive_setup \<Rightarrow> string" where
  "spiceds_product_lid s =
     ''urn:'' @ national_agency s @ '':'' @ archiving_agency s @ '':'' @
     mission_accronym s @ ''.spice:document:spiceds''"

text \<open>\<^verbatim>\<open>'{}.0'.format(int(self.version))\<close>, of both classes.\<close>

definition product_vid :: "int \<Rightarrow> string" where
  "product_vid version = py_str version @ ''.0''"

text \<open>The version of an inventory, from \<^verbatim>\<open>InventoryProduct.__init__\<close>: one more than
  the latest inventory of the collection in the final area, 1 when there is none, when
  its name does not parse, or when the run is not an increment.\<close>

definition inventory_pattern :: "archive_setup \<Rightarrow> string \<Rightarrow> string" where
  "inventory_pattern s collection_name =
     final_directory s @ ''/'' @ mission_accronym s @ ''_spice/'' @ ''/'' @ collection_name @
     ''/'' @ ''collection_'' @ collection_name @ ''_inventory_v*.csv''"

definition inventory_version ::
  "(string \<Rightarrow> string list) \<Rightarrow> archive_setup \<Rightarrow> string \<Rightarrow> int" where
  "inventory_version glob s collection_name =
     (if is_increment s
      then
        (case py_last (py_sorted (glob (inventory_pattern s collection_name))) of
           Inl e \<Rightarrow> 1
         | Inr latest_file \<Rightarrow>
             (case int_or_raise (hd (py_split ''.'' (last (py_split ''_v'' latest_file)))) of
                Inl e \<Rightarrow> 1
              | Inr latest_version \<Rightarrow> latest_version + 1))
      else 1)"

definition inventory_name :: "string \<Rightarrow> int \<Rightarrow> string" where
  "inventory_name collection_name version =
     ''collection_'' @ collection_name @ ''_inventory_v'' @ fmt03 version @ ''.csv''"

text \<open>The identity of the inventory product of a collection: its file name and its LIDVID.\<close>

record product_id =
  id_name :: string
  id_lid :: string
  id_vid :: string

definition lidvid :: "product_id \<Rightarrow> string" where
  "lidvid p = id_lid p @ ''::'' @ id_vid p"

definition inventory_product ::
  "(string \<Rightarrow> string list) \<Rightarrow> archive_setup \<Rightarrow> string \<Rightarrow> product_id" where
  "inventory_product glob s collection_name =
     (let version = inventory_version glob s collection_name
      in \<lparr>id_name = inventory_name collection_name version,
          id_lid = inventory_product_lid s,
          id_vid = product_vid version\<rparr>)"

definition insight_archive :: archive_setup where
  "insight_archive =
     \<lparr>final_directory = ''/bundle'', staging_directory = ''/staging'', root_dir = ''/npb'',
      mission_accronym = ''insight'', national_agency = ''nasa'', archiving_agency = ''pds'',
      is_increment = False\<rparr>"

definition insight_mk_paths :: "string list" where
  "insight_mk_paths =
     [''/bundle/insight_spice/spice_kernels/mk/insight_v07.tm'',
      ''/bundle/insight_spice/spice_kernels/mk/insight_v08.orig.tm'']"

definition insight_draft_paths :: "string list" where
  "insight_draft_paths =
     [''/bundle/insight_spice/bundle_insight_spice_vdraft.xml'',
      ''/work/insight_release_07.kernel_list'']"

definition insight_v011_paths :: "string list" where
  "insight_v011_paths = [''/bundle/insight_spice/spice_kernels/mk/insight_v011.tm'']"

subsection \<open>Text files\<close>

text \<open>
  A file is its text. Reading it line by line in text mode translates every line ending
  to a line feed (universal newlines) and yields the lines with their terminator.
\<close>

definition CR :: char where "CR = CHR 0x0D"
definition LF :: char where "LF = CHR 0x0A"
definition CRLF :: string where "CRLF = [CR, LF]"

fun universal_newlines :: "string \<Rightarrow> string" where
  "universal_newlines [] = []"
| "universal_newlines [c] = [if c = CR then LF else c]"
| "universal_newlines (c # d # cs) =
     (if c = CR \<and> d = LF then LF # universal_newlines cs
      else if c = CR then LF # universal_newlines (d # cs)
      else c # universal_newlines (d # cs))"

fun lines_from :: "string \<Rightarrow> string \<Rightarrow> string list" where
  "lines_from acc [] = (if acc = [] then [] else [rev acc])"
| "lines_from acc (c # cs) =
     (if c = LF then rev (c # acc) # lines_from [] cs else lines_from (c # acc) cs)"

definition readlines :: "string \<Rightarrow> string list" where
  "readlines text = lines_from [] (universal_newlines text)"

fun endswith :: "string \<Rightarrow> string \<Rightarrow> bool" where
  "endswith suffix s = startswith (rev suffix) (rev s)"

text \<open>
  Modelled from the spec: \<^verbatim>\<open>add_carriage_return\<close> of
  \<^verbatim>\<open>npb/utils/files.py\<close>, which is not among the sources. The spec requires
  every inventory entry to be CRLF-terminated: a line that ends in CRLF is kept, a final
  line feed becomes CRLF, and CRLF is appended to any other line.
\<close>

definition add_carriage_return :: "string \<Rightarrow> string" where
  "add_carriage_return line =
     (if endswith CRLF line then line
      else if endswith [LF] line then butlast line @ CRLF
      else line @ CRLF)"

subsection \<open>Inventories: \<^verbatim>\<open>InventoryProduct.write_product\<close> and \<^verbatim>\<open>validate\<close>\<close>

text \<open>A member of a collection, with the LID and VID of its label.\<close>

record product =
  name :: string
  lid :: string
  vid :: string
  new_product :: bool
  label_PRODUCT_LID :: string
  label_PRODUCT_VID :: string

definition prev_collection_path :: "archive_setup \<Rightarrow> string \<Rightarrow> string \<Rightarrow> int \<Rightarrow> string" where
  "prev_collection_path s collection_name inventory version =
     final_directory s @ ''/'' @ mission_accronym s @ ''_spice/'' @ collection_name @ ''/'' @
     py_replace (py_str version) (py_str (version - 1)) inventory"

definition secondary_line :: "string \<Rightarrow> string" where
  "secondary_line line =
     add_carriage_return
       (if py_in ''P,urn'' line then py_replace ''P,urn'' ''S,urn'' line else line)"

definition primary_line :: "product \<Rightarrow> string" where
  "primary_line p =
     add_carriage_return (''P,'' @ label_PRODUCT_LID p @ ''::'' @ label_PRODUCT_VID p @ CRLF)"

text \<open>
  The text written to the inventory and the messages logged. \<open>read_file\<close> is the
  file system: the text of a path, \<open>None\<close> where \<^verbatim>\<open>open\<close> raises (the handler
  logs and goes on).
\<close>

definition inventory_write ::
  "(string \<Rightarrow> string option) \<Rightarrow> archive_setup \<Rightarrow> string \<Rightarrow> product list \<Rightarrow> string \<Rightarrow> int \<Rightarrow>
   string \<times> string list" where
  "inventory_write read_file s collection_name products inventory version =
     (let carried =
            (if is_increment s
             then
               (case read_file (prev_collection_path s collection_name inventory version) of
                  None \<Rightarrow>
                    ([], [''-- A previous collection was expected. '' @
                          ''The generated collection might be incorrect.''])
                | Some text \<Rightarrow> (map secondary_line (readlines text), []))
             else ([], []))
      in (concat (fst carried @ map primary_line (filter new_product products)), snd carried))"




definition naif0012 :: product where
  "naif0012 =
     \<lparr>name = ''naif0012.tls'',
      lid = ''urn:nasa:pds:insight.spice:spice_kernels:lsk_naif0012.tls'',
      vid = ''1.0'', new_product = True,
      label_PRODUCT_LID = ''urn:nasa:pds:insight.spice:spice_kernels:lsk_naif0012.tls'',
      label_PRODUCT_VID = ''1.0''\<rparr>"

definition insight_fk :: product where
  "insight_fk =
     \<lparr>name = ''insight_v05.tf'',
      lid = ''urn:nasa:pds:insight.spice:spice_kernels:fk_insight_v05.tf'',
      vid = ''1.0'', new_product = True,
      label_PRODUCT_LID = ''urn:nasa:pds:insight.spice:spice_kernels:fk_insight_v05.tf'',
      label_PRODUCT_VID = ''1.0''\<rparr>"

text \<open>The final area of an archive whose latest \<open>spice_kernels\<close> inventory is version 9.\<close>

definition final_area_v009 :: "(string \<times> string) list" where
  "final_area_v009 =
     [(''/bundle/insight_spice/spice_kernels/collection_spice_kernels_inventory_v009.csv'',
       ''P,urn:nasa:pds:insight.spice:spice_kernels:lsk_naif0012.tls::1.0'' @ CRLF)]"

definition final_area_v001 :: "(string \<times> string) list" where
  "final_area_v001 =
     [(''/bundle/insight_spice/spice_kernels/collection_spice_kernels_inventory_v001.csv'',
       ''P,urn:nasa:pds:insight.spice:spice_kernels:lsk_naif0012.tls::1.0'' @ CRLF)]"

section \<open>The kernel list: \<^verbatim>\<open>KernelList.validate\<close>\<close>







subsection \<open>The pipeline up to the registration of the kernels\<close>


definition py_lower :: "string \<Rightarrow> string" where
  "py_lower s =
     map (\<lambda>c. let n = (of_char c :: nat) in if 65 \<le> n \<and> n \<le> 90 then char_of (n + 32) else c) s"





section \<open>Meta-kernel generation: \<^verbatim>\<open>MetaKernelProduct.write_product\<close>\<close>

text \<open>
  What the method gets from outside: the kernels available for a kernel type (in the
  staging area and in the meta-kernels of the final area), when a file name matches a
  pattern of the grammar, the date embedded in a file name, and
  \<^verbatim>\<open>type2extension\<close> (of \<^verbatim>\<open>npb/utils/files.py\<close>, not among the sources).
\<close>

record kernel_pool =
  candidates :: "string \<Rightarrow> string list"
  pattern_matches :: "string \<Rightarrow> string \<Rightarrow> bool"
  embedded_date :: "string \<Rightarrow> string"
  type2extension :: "string \<Rightarrow> string list"

definition kernel_type_list :: "string list" where
  "kernel_type_list = [''lsk'', ''pck'', ''fk'', ''ik'', ''sclk'', ''spk'', ''ck'', ''dsk'']"

text \<open>The first inner loop: the patterns of the \<^verbatim>\<open>exclude:\<close> lines of the grammar.\<close>

definition excluded_of_grammar :: "string list \<Rightarrow> string list" where
  "excluded_of_grammar kernel_grammar_list =
     map (\<lambda>g. last (py_split ''exclude:'' g)) (filter (py_in ''exclude:'') kernel_grammar_list)"

fun latest_by :: "(string \<Rightarrow> string) \<Rightarrow> string \<Rightarrow> string list \<Rightarrow> string" where
  "latest_by key best [] = best"
| "latest_by key best (k # ks) =
     latest_by key (if str_le (key best) (key k) then k else best) ks"

text \<open>
  Modelled from the spec: \<^verbatim>\<open>get_latest_kernel\<close> of \<^verbatim>\<open>npb/utils/files.py\<close>,
  which is not among the sources. Among the candidates of the kernel type that match the
  token, the excluded ones are never selected; of the others the most recent one is
  selected, by the embedded date when the token has the date qualifier and by the
  lexicographic order of the file names otherwise. No match gives no kernel.
\<close>

definition get_latest_kernel ::
  "kernel_pool \<Rightarrow> string \<Rightarrow> string \<Rightarrow> bool \<Rightarrow> string list \<Rightarrow> string list" where
  "get_latest_kernel pool kernel_type pattern dates excluded_kernels =
     (case filter (\<lambda>k. pattern_matches pool pattern k \<and>
                        \<not> list_ex (\<lambda>e. pattern_matches pool e k) excluded_kernels)
             (candidates pool kernel_type) of
        [] \<Rightarrow> []
      | k # ks \<Rightarrow>
          [if dates then latest_by (embedded_date pool) k ks else last (py_sorted (k # ks))])"

text \<open>The body of the second inner loop, for one line of the grammar: the entries it
  appends to \<^verbatim>\<open>mkgen_kernels\<close>.\<close>

definition grammar_entries :: "kernel_pool \<Rightarrow> string \<Rightarrow> string list \<Rightarrow> string \<Rightarrow> string list" where
  "grammar_entries pool kernel_type excluded_kernels kernel_grammar =
     (let dates = py_in ''date:'' kernel_grammar;
          g = (if dates then last (py_split ''date:'' kernel_grammar) else kernel_grammar)
      in if py_lower (last (py_split ''.'' g)) \<in> set (type2extension pool kernel_type)
         then map (\<lambda>k. kernel_type @ ''/'' @ k)
                (get_latest_kernel pool kernel_type g dates excluded_kernels)
         else [])"

text \<open>The loop over the kernel types. \<^verbatim>\<open>excluded_kernels\<close> is not reset between
  the types: the exclusions of the grammar are appended to it again for each type, before
  that type's lines are matched.\<close>

fun match_kernel_types ::
  "kernel_pool \<Rightarrow> string list \<Rightarrow> string list \<Rightarrow> string list \<Rightarrow> string list" where
  "match_kernel_types pool grammar excluded_kernels [] = []"
| "match_kernel_types pool grammar excluded_kernels (t # ts) =
     (let excluded = excluded_kernels @ excluded_of_grammar grammar
      in concat (map (grammar_entries pool t excluded) grammar) @
         match_kernel_types pool grammar excluded ts)"

text \<open>\<^verbatim>\<open>list(OrderedDict.fromkeys(mkgen_kernels))\<close> keeps the first occurrence of
  each entry.\<close>

definition mkgen_kernels :: "kernel_pool \<Rightarrow> string list \<Rightarrow> string list" where
  "mkgen_kernels pool grammar =
     rev (remdups (rev (match_kernel_types pool grammar [] kernel_type_list)))"

definition insight_pool :: kernel_pool where
  "insight_pool =
     \<lparr>candidates =
        (\<lambda>t. if t = ''ck'' then [''insight_cru_v01.bc'', ''insight_cru_v02.bc'']
              else if t = ''lsk'' then [''naif0011.tls'', ''naif0012.tls'']
              else []),
      pattern_matches = fnmatch,
      embedded_date = (\<lambda>k. k),
      type2extension =
        (\<lambda>t. if t = ''ck'' then [''bc''] else if t = ''lsk'' then [''tls''] else [])\<rparr>"

definition insight_grammar :: "string list" where
  "insight_grammar = [''naif*.tls'', ''insight_cru_*.bc'', ''exclude:insight_cru_v02.bc'']"

section \<open>The miscellaneous collection in \<^verbatim>\<open>main\<close>\<close>















section \<open>Properties\<close>

lemma split_from_nonempty: "split_from sep acc s \<noteq> []"
  by (induction sep acc s rule: split_from.induct) auto

lemma py_split_nonempty: "py_split sep s \<noteq> []"
  by (simp add: py_split_def split_from_nonempty)

subsection \<open>Release resolution\<close>

text \<open>The first two tiers on examples: the latest bundle label is version 7, and a clear
  file list of release 8.\<close>

lemma set_release_bundle_label_example:
  "set_release (glob_listing insight_labelled_paths) insight_setup =
     Inr \<lparr>release = ''008'', current_release = ''007'', increment = True,
          log = [''-- Checking existence of previous release.'',
                 ''     Generating release 008.'']\<rparr>"
  by code_simp

lemma set_release_clear_example:
  "set_release (glob_listing insight_paths)
     (insight_setup\<lparr>clear := Some ''insight_release_08.file_list''\<rparr>) =
     Inr \<lparr>release = ''008'', current_release = ''007'', increment = True,
          log = [''-- Checking existence of previous release.'',
                 ''     Generating release 008 as obtained from file list from previous run: '' @
                 ''insight_release_08.file_list'']\<rparr>"
  by code_simp

text \<open>
  C1. A prior release found through a clear file list, a bundle label or a kernel list of
  the working directory gives the next release number and an increment; no prior release
  gives release 1 and no increment. The kernel-list tier does not do so: the working
  directory below holds the kernel list of release 7, matched by the glob, and the run
  has neither a clear file list nor a bundle label, yet the result is the first release,
  \<open>001\<close>, with no increment. The split on the literal \<^verbatim>\<open>"_{self.run_type}_"\<close>
  leaves the whole path, whose stem is not an integer.
\<close>

theorem set_release_kernel_list_tier:
  "glob_listing insight_paths (kernel_list_pattern insight_setup) =
     [''/work/insight_release_07.kernel_list''] \<and>
   set_release (glob_listing insight_paths) insight_setup =
     Inr \<lparr>release = ''001'', current_release = [], increment = False,
          log = [''-- Checking existence of previous release.'',
                 ''-- Bundle label not found. Checking previous kernel list.'',
                 ''     This is the first release.'']\<rparr>"
  by code_simp

text \<open>
  C10. A release number that fails to parse is non-fatal in every tier. This fails in the
  clear tier, which has no handler: a clear file list whose release field is not an
  integer raises ValueError.
\<close>

theorem set_release_clear_unparsed:
  "set_release (glob_listing insight_paths)
     (insight_setup\<lparr>clear := Some ''insight_release_xx.file_list''\<rparr>) = Inl ValueError"
  by code_simp

text \<open>
  C10, as amended. Without a clear file list \<^verbatim>\<open>set_release\<close> returns normally for
  every file system: a failure of the bundle-label tier (no label, or a label whose
  version does not parse) is logged and the kernel-list tier is tried, and a failure there
  is logged and gives the first release.
\<close>

theorem set_release_falls_through:
  assumes "\<not> truthy (clear s)"
  shows "\<exists>st. set_release glob s = Inr st \<and>
           (\<forall>e. release_from_bundle (glob (bundle_pattern s)) = Inl e \<longrightarrow>
              ''-- Bundle label not found. Checking previous kernel list.'' \<in> set (log st) \<and>
              (\<forall>e'. release_from_kernel_list s e (glob (kernel_list_pattern s)) = Inl e' \<longrightarrow>
                 release st = ''001'' \<and> current_release st = [] \<and> \<not> increment st \<and>
                 ''     This is the first release.'' \<in> set (log st)))"
  using assms
  by (auto simp: set_release_def split: sum.splits prod.splits)

theorem set_release_falls_through_witness:
  "\<not> truthy (clear insight_setup) \<and>
   release_from_bundle (glob_listing insight_draft_paths (bundle_pattern insight_setup)) =
     Inl ValueError \<and>
   (\<exists>st. set_release (glob_listing insight_draft_paths) insight_setup = Inr st \<and>
      release st = ''001'' \<and> \<not> increment st \<and>
      ''-- Bundle label not found. Checking previous kernel list.'' \<in> set (log st))"
proof -
  have c: "\<not> truthy (clear insight_setup)"
    by code_simp
  have b: "release_from_bundle (glob_listing insight_draft_paths (bundle_pattern insight_setup)) =
             Inl ValueError"
    by code_simp
  have k: "release_from_kernel_list insight_setup ValueError
             (glob_listing insight_draft_paths (kernel_list_pattern insight_setup)) =
             Inl ValueError"
    by code_simp
  from set_release_falls_through [OF c, of "glob_listing insight_draft_paths"] b k
  have "\<exists>st. set_release (glob_listing insight_draft_paths) insight_setup = Inr st \<and>
          release st = ''001'' \<and> \<not> increment st \<and>
          ''-- Bundle label not found. Checking previous kernel list.'' \<in> set (log st)"
    by blast
  with c b show ?thesis by blast
qed

subsection \<open>Meta-kernels\<close>

text \<open>The VID depends on the name alone: whatever the final area holds, the check of the
  version adds messages and nothing else. A single digit is read as it is.\<close>

lemma metakernel_vid_ignores_prior:
  "metakernel_version mk = Inr v \<Longrightarrow>
   \<exists>messages. metakernel_vid glob s mk = Inr (metakernel_product_vid v, messages)"
  by (simp add: metakernel_vid_def)

lemma metakernel_vid_v007_example:
  "metakernel_vid glob insight_archive ''insight_v007.tm'' =
     Inr (''7.0'', [''-- Meta-kernel version 7 from kernel list.''])"
  by code_simp

text \<open>
  C7. The VID of a meta-kernel is the version embedded in its file name, as
  \<open>version.0\<close>, and a disagreement with the version expected from the prior release
  is only logged. The second half holds, the first does not: the version is read from
  the last character of the stem alone. For \<^verbatim>\<open>insight_v012.tm\<close>, with
  \<^verbatim>\<open>insight_v011.tm\<close> in the final area, the VID is \<open>2.0\<close>, not \<open>12.0\<close>, and
  the log reports the discrepancy with the expected version 12.
\<close>

theorem metakernel_vid_last_digit:
  "metakernel_vid (glob_listing insight_v011_paths) (insight_archive\<lparr>is_increment := True\<rparr>)
     ''insight_v012.tm'' =
   Inr (''2.0'',
        [''-- Meta-kernel version 2 from kernel list.'',
         ''-- Check version from previous increment.'',
         ''    Version discrepancy. From kernel list: 2. From increment: 12.'',
         ''    It is recommended to stop the execution and fix the issue.'',
         ''    Version from kernel list will be used: 2.''])"
  by code_simp

lemma compare_search_stuck:
  assumes "list_all (\<lambda>j. glob (path @ take j mk @ ''*.tm'') \<noteq> []) [i..<length mk - 1]"
  shows "compare_search fuel glob path mk i val_mk = None"
  using assms
proof (induction fuel arbitrary: i val_mk)
  case 0
  then show ?case by simp
next
  case (Suc fuel)
  show ?case
  proof (cases "int i < int (length mk) - 1")
    case True
    then have lt: "i < length mk - 1" by linarith
    then have split: "[i..<length mk - 1] = i # [Suc i..<length mk - 1]"
      by (simp add: upt_conv_Cons)
    from Suc.prems split have ne: "glob (path @ take i mk @ ''*.tm'') \<noteq> []"
      and rest: "list_all (\<lambda>j. glob (path @ take j mk @ ''*.tm'') \<noteq> [])
                   [Suc i..<length mk - 1]"
      by simp_all
    have "compare_search fuel glob path mk (Suc i)
            (last (py_sorted (glob (path @ take i mk @ ''*.tm'')))) = None"
      by (rule Suc.IH) (rule rest)
    with True ne show ?thesis by (simp add: Let_def)
  next
    case False
    have "compare_search fuel glob path mk i val_mk = None"
      by (rule Suc.IH) (rule Suc.prems)
    with False show ?thesis by simp
  qed
qed

text \<open>With the meta-kernel of the prior release alone in the final area the search ends at
  the first prefix without a match, and the prior meta-kernel is the file compared.\<close>

lemma compare_fromfile_example:
  "compare_fromfile 12
     (glob_listing [''/bundle/insight_spice/spice_kernels/mk/insight_v07.tm''])
     insight_archive ''insight_v08.tm'' =
     Some ''/bundle/insight_spice/spice_kernels/mk/insight_v07.tm''"
  by code_simp

text \<open>
  C6. The comparison terminates for every input. It does not: when every prefix of the
  name that the loop tries has a match, \<^verbatim>\<open>i\<close> reaches
  \<^verbatim>\<open>len(val_mk_name) - 1\<close> with \<^verbatim>\<open>match_flag\<close> still true, and the body
  no longer changes anything. For \<^verbatim>\<open>insight_v08.tm\<close> and a final area that holds
  \<^verbatim>\<open>insight_v08.orig.tm\<close> the search has no result, whatever the fuel.
\<close>

theorem compare_never_returns:
  "compare_fromfile fuel (glob_listing insight_mk_paths) insight_archive ''insight_v08.tm'' = None"
proof -
  have n: "last (py_split ''/'' ''insight_v08.tm'') = ''insight_v08.tm''"
    by code_simp
  have "list_all (\<lambda>j. glob_listing insight_mk_paths
                        (val_mk_path_of insight_archive @ take j ''insight_v08.tm'' @ ''*.tm'') \<noteq> [])
          [1..<length ''insight_v08.tm'' - 1]"
    by code_simp
  then have "compare_search fuel (glob_listing insight_mk_paths) (val_mk_path_of insight_archive)
               ''insight_v08.tm'' 1 [] = None"
    by (rule compare_search_stuck)
  with n show ?thesis by (simp add: compare_fromfile_def)
qed

subsection \<open>LIDVIDs\<close>

text \<open>The LID of an inventory differs from the LID of the SPICEDS document of the same
  archive in one character only.\<close>

lemma spiceds_lid_differs: "spiceds_product_lid s \<noteq> inventory_product_lid s"
  by (simp add: spiceds_product_lid_def inventory_product_lid_def)

text \<open>
  C4. Distinct products of the catalog have distinct LIDVIDs. The inventory products do
  not: \<^verbatim>\<open>InventoryProduct.product_lid\<close> does not depend on the collection, so on
  a first release the inventories of the collections \<open>spice_kernels\<close> and
  \<open>document\<close>, two products with different file names, both have the LIDVID
  \<open>urn:nasa:pds:insight_spice:document:spiceds::1.0\<close>.
\<close>

theorem inventory_lidvid_shared:
  "id_name (inventory_product glob insight_archive ''spice_kernels'') =
     ''collection_spice_kernels_inventory_v001.csv'' \<and>
   id_name (inventory_product glob insight_archive ''document'') =
     ''collection_document_inventory_v001.csv'' \<and>
   lidvid (inventory_product glob insight_archive ''spice_kernels'') =
     ''urn:nasa:pds:insight_spice:document:spiceds::1.0'' \<and>
   lidvid (inventory_product glob insight_archive ''document'') =
     ''urn:nasa:pds:insight_spice:document:spiceds::1.0''"
  by code_simp

subsection \<open>Inventories\<close>

lemma inventory_carry_forward_example:
  "inventory_write (map_of final_area_v001) (insight_archive\<lparr>is_increment := True\<rparr>)
     ''spice_kernels'' [insight_fk] ''collection_spice_kernels_inventory_v002.csv'' 2 =
   (''S,urn:nasa:pds:insight.spice:spice_kernels:lsk_naif0012.tls::1.0'' @ CRLF @
    ''P,urn:nasa:pds:insight.spice:spice_kernels:fk_insight_v05.tf::1.0'' @ CRLF, [])"
  by code_simp

text \<open>
  C5. For every collection with a prior inventory the entries of that inventory are
  copied forward as Secondary, followed by one Primary line for each new product. The
  tenth version of an inventory does not do so: the name of the prior inventory is made
  by replacing \<open>10\<close> by \<open>9\<close> in \<^verbatim>\<open>collection_spice_kernels_inventory_v010.csv\<close>,
  which gives \<^verbatim>\<open>..._v09.csv\<close>, not the \<^verbatim>\<open>..._v009.csv\<close> that exists. The
  file is not found and the inventory holds the new product alone. (The pattern of the
  glob has two separators after \<^verbatim>\<open>insight_spice\<close>, and so have its matches.)
\<close>

theorem inventory_v010_drops_prior_entries:
  "inventory_version
     (glob_listing
        [''/bundle/insight_spice//spice_kernels/collection_spice_kernels_inventory_v009.csv''])
     (insight_archive\<lparr>is_increment := True\<rparr>) ''spice_kernels'' = 10 \<and>
   inventory_name ''spice_kernels'' 10 = ''collection_spice_kernels_inventory_v010.csv'' \<and>
   prev_collection_path (insight_archive\<lparr>is_increment := True\<rparr>) ''spice_kernels''
     ''collection_spice_kernels_inventory_v010.csv'' 10 =
     ''/bundle/insight_spice/spice_kernels/collection_spice_kernels_inventory_v09.csv'' \<and>
   inventory_write (map_of final_area_v009) (insight_archive\<lparr>is_increment := True\<rparr>)
     ''spice_kernels'' [insight_fk] ''collection_spice_kernels_inventory_v010.csv'' 10 =
     (''P,urn:nasa:pds:insight.spice:spice_kernels:fk_insight_v05.tf::1.0'' @ CRLF,
      [''-- A previous collection was expected. The generated collection might be incorrect.''])"
  by code_simp




subsection \<open>The kernel list\<close>



subsection \<open>The manifest of a meta-kernel\<close>

lemma set_insert_sorted: "set (insert_sorted x ys) = insert x (set ys)"
  by (induction ys) auto

lemma set_py_sorted: "set (py_sorted xs) = set xs"
  by (induction xs) (auto simp: set_insert_sorted)

lemma last_py_sorted_mem: "xs \<noteq> [] \<Longrightarrow> last (py_sorted xs) \<in> set xs"
proof -
  assume "xs \<noteq> []"
  then have "py_sorted xs \<noteq> []"
    using set_py_sorted [of xs] by (metis set_empty)
  then have "last (py_sorted xs) \<in> set (py_sorted xs)"
    by (rule last_in_set)
  then show ?thesis
    by (simp add: set_py_sorted)
qed

lemma latest_by_mem: "latest_by key best ks \<in> set (best # ks)"
  by (induction ks arbitrary: best) (auto split: if_splits)

lemma get_latest_kernel_sound:
  assumes "k \<in> set (get_latest_kernel pool t pat dates ex)"
  shows "k \<in> set (candidates pool t) \<and> \<not> list_ex (\<lambda>e. pattern_matches pool e k) ex"
proof -
  let ?q = "filter (\<lambda>k. pattern_matches pool pat k \<and>
                        \<not> list_ex (\<lambda>e. pattern_matches pool e k) ex) (candidates pool t)"
  have "k \<in> set ?q"
  proof (cases ?q)
    case Nil
    with assms show ?thesis
      by (simp add: get_latest_kernel_def)
  next
    case (Cons k0 ks)
    with assms have k: "k = (if dates then latest_by (embedded_date pool) k0 ks
                             else last (py_sorted (k0 # ks)))"
      by (simp add: get_latest_kernel_def)
    have "k \<in> set (k0 # ks)"
    proof (cases dates)
      case True
      with k latest_by_mem [of "embedded_date pool" k0 ks] show ?thesis by simp
    next
      case False
      with k last_py_sorted_mem [of "k0 # ks"] show ?thesis by simp
    qed
    with Cons show ?thesis by simp
  qed
  then show ?thesis
    by simp
qed

lemma grammar_entries_sound:
  assumes "x \<in> set (grammar_entries pool t ex g)"
  shows "\<exists>k. x = t @ ''/'' @ k \<and> \<not> list_ex (\<lambda>e. pattern_matches pool e k) ex"
  using assms get_latest_kernel_sound
  by (fastforce simp: grammar_entries_def Let_def split: if_splits)

lemma match_kernel_types_sound:
  assumes "x \<in> set (match_kernel_types pool grammar ex ts)"
  shows "\<exists>t \<in> set ts. \<exists>k. x = t @ ''/'' @ k \<and>
           \<not> list_ex (\<lambda>e. pattern_matches pool e k) (excluded_of_grammar grammar)"
  using assms
proof (induction ts arbitrary: ex)
  case Nil
  then show ?case by simp
next
  case (Cons t ts)
  let ?ex = "ex @ excluded_of_grammar grammar"
  from Cons.prems consider
    (here) g where "g \<in> set grammar" "x \<in> set (grammar_entries pool t ?ex g)"
    | (later) "x \<in> set (match_kernel_types pool grammar ?ex ts)"
    by (auto simp: Let_def)
  then show ?case
  proof cases
    case here
    from grammar_entries_sound [OF here(2)] obtain k
      where "x = t @ ''/'' @ k" "\<not> list_ex (\<lambda>e. pattern_matches pool e k) ?ex"
      by blast
    then show ?thesis
      by (auto simp: list_ex_iff)
  next
    case later
    from Cons.IH [OF later] show ?thesis
      by auto
  qed
qed

lemma kernel_type_entry_inject:
  assumes "t \<in> set kernel_type_list" and "t' \<in> set kernel_type_list"
    and "t @ ''/'' @ k = t' @ ''/'' @ k'"
  shows "k = k'"
  using assms by (auto simp: kernel_type_list_def)

text \<open>
  C8. A candidate whose file name matches a pattern of an \<^verbatim>\<open>exclude:\<close> line of the
  grammar is in no entry of the manifest, for any kernel type, whatever the other
  candidates are.
\<close>

theorem excluded_never_in_manifest:
  assumes "e \<in> set (excluded_of_grammar grammar)"
    and "pattern_matches pool e k"
    and "t \<in> set kernel_type_list"
  shows "t @ ''/'' @ k \<notin> set (mkgen_kernels pool grammar)"
proof
  assume "t @ ''/'' @ k \<in> set (mkgen_kernels pool grammar)"
  then have "t @ ''/'' @ k \<in> set (match_kernel_types pool grammar [] kernel_type_list)"
    by (simp add: mkgen_kernels_def)
  from match_kernel_types_sound [OF this] obtain t' k'
    where t': "t' \<in> set kernel_type_list" and eq: "t @ ''/'' @ k = t' @ ''/'' @ k'"
      and free: "\<not> list_ex (\<lambda>e. pattern_matches pool e k') (excluded_of_grammar grammar)"
    by blast
  from kernel_type_entry_inject [OF assms(3) t' eq] have "k = k'" .
  with free assms(1,2) show False
    by (auto simp: list_ex_iff)
qed

theorem excluded_never_in_manifest_witness:
  "''insight_cru_v02.bc'' \<in> set (excluded_of_grammar insight_grammar) \<and>
   pattern_matches insight_pool ''insight_cru_v02.bc'' ''insight_cru_v02.bc'' \<and>
   ''ck'' \<in> set kernel_type_list \<and>
   ''insight_cru_v02.bc'' \<in> set (candidates insight_pool ''ck'') \<and>
   ''ck/insight_cru_v02.bc'' \<notin> set (mkgen_kernels insight_pool insight_grammar)"
proof -
  have e: "''insight_cru_v02.bc'' \<in> set (excluded_of_grammar insight_grammar)"
    by code_simp
  have m: "pattern_matches insight_pool ''insight_cru_v02.bc'' ''insight_cru_v02.bc''"
    by code_simp
  have t: "''ck'' \<in> set kernel_type_list"
    by code_simp
  have c: "''insight_cru_v02.bc'' \<in> set (candidates insight_pool ''ck'')"
    by code_simp
  from excluded_never_in_manifest [OF e m t] e m t c show ?thesis
    by simp
qed

lemma insight_manifest:
  "mkgen_kernels insight_pool insight_grammar = [''lsk/naif0012.tls'', ''ck/insight_cru_v01.bc'']"
  by code_simp

subsection \<open>The miscellaneous collection\<close>


















end
